theory Spec2Isabelle
  imports Main "HOL-Library.Word"
begin

section \<open>Buffers and the integer writers of the runtime\<close>

text \<open>
  A \<^verbatim>\<open>Buffer\<close> is a list of bytes. The writers \<^verbatim>\<open>writeUInt8\<close>, \<^verbatim>\<open>writeUInt16BE\<close>
  and \<^verbatim>\<open>writeUInt32BE\<close> throw when the value does not fit the field; the model returns
  \<open>Inl ERR_OUT_OF_RANGE\<close> there. Every \<^verbatim>\<open>throw\<close> of the source is an \<open>Inl\<close> of the model.
\<close>

type_synonym byte = "8 word"
type_synonym buffer = "byte list"

datatype xyo_error =
    ERR_CREATOR_MAPPING
  | ERR_CRITICAL
  | ERR_OUT_OF_RANGE
  | ERR_TYPE_ERROR
  | ERR_THROWN nat

definition writeUInt8 :: "nat \<Rightarrow> xyo_error + buffer" where
  "writeUInt8 v = (if v < 256 then Inr [of_nat v] else Inl ERR_OUT_OF_RANGE)"

definition writeUInt16BE :: "nat \<Rightarrow> xyo_error + buffer" where
  "writeUInt16BE v =
     (if v < 65536 then Inr [of_nat (v div 256), of_nat v] else Inl ERR_OUT_OF_RANGE)"

definition writeUInt32BE :: "nat \<Rightarrow> xyo_error + buffer" where
  "writeUInt32BE v =
     (if v < 4294967296
      then Inr [of_nat (v div 16777216), of_nat (v div 65536), of_nat (v div 256), of_nat v]
      else Inl ERR_OUT_OF_RANGE)"

text \<open>The unsigned big-endian value of a byte string, as \<^verbatim>\<open>readUIntBE\<close> computes it.\<close>

definition readUIntBE :: "buffer \<Rightarrow> nat" where
  "readUIntBE bs = foldl (\<lambda>acc b. acc * 256 + unat b) 0 bs"

section \<open>The packer (xyo-packer.ts)\<close>

text \<open>
  A serializer carries its description (major, minor), the width of its size prefix and
  its two conversions; its class is not among the source files, so it is a parameter of
  the packer. In the source both conversions also receive the packer; the model takes
  them already applied to it. A conversion that throws returns \<open>Inl\<close>.
\<close>

record 'v XYOSerializer =
  major :: byte
  minor :: byte
  sizeOfBytesToRead :: nat
  serializer_serialize :: "'v \<Rightarrow> xyo_error + buffer"
  serializer_deserialize :: "buffer \<Rightarrow> xyo_error + 'v"

text \<open>
  Modelled from the spec: the getter \<^verbatim>\<open>id\<close> of \<^verbatim>\<open>XYOSerializer\<close> (xyo-serializer.ts is
  missing), "one byte major, one byte minor".
\<close>

definition serializer_id :: "'v XYOSerializer \<Rightarrow> buffer" where
  "serializer_id config = [major config, minor config]"

text \<open>
  The two indexes are plain objects. The index by major and minor is only read at keys
  that are numbers; the index by name is read at any string, so the properties every
  object inherits show through it: a name that is one of them and was never registered
  reads as a function, not as \<^verbatim>\<open>undefined\<close>, and an assignment to \<^verbatim>\<open>__proto__\<close> of a
  number is ignored.
\<close>

definition inheritedPropertyNames :: "string list" where
  "inheritedPropertyNames =
     [''constructor'', ''__defineGetter__'', ''__defineSetter__'', ''hasOwnProperty'',
      ''__lookupGetter__'', ''__lookupSetter__'', ''isPrototypeOf'',
      ''propertyIsEnumerable'', ''toString'', ''valueOf'', ''__proto__'',
      ''toLocaleString'']"

record 'v XyoPacker =
  serializerDeserializersCollection :: "'v XYOSerializer list"
  serializerDeserializersByNameIndex :: "string \<rightharpoonup> nat"
  serializerDeserializerMajorMinorIndex :: "byte \<rightharpoonup> (byte \<rightharpoonup> nat)"

definition newXyoPacker :: "'v XyoPacker" where
  "newXyoPacker =
     \<lparr> serializerDeserializersCollection = [],
       serializerDeserializersByNameIndex = Map.empty,
       serializerDeserializerMajorMinorIndex = Map.empty \<rparr>"

definition registerSerializerDeserializer ::
  "string \<Rightarrow> 'v XYOSerializer \<Rightarrow> 'v XyoPacker \<Rightarrow> 'v XyoPacker" where
  "registerSerializerDeserializer name serializerDeserializer p =
     (let collection = serializerDeserializersCollection p @ [serializerDeserializer];
          index = length collection - 1;
          mj = major serializerDeserializer;
          mn = minor serializerDeserializer;
          byMajor = (case serializerDeserializerMajorMinorIndex p mj of
                       None \<Rightarrow> Map.empty
                     | Some m \<Rightarrow> m)
      in \<lparr> serializerDeserializersCollection = collection,
           serializerDeserializersByNameIndex =
             (if name = ''__proto__'' then serializerDeserializersByNameIndex p
              else (serializerDeserializersByNameIndex p)(name \<mapsto> index)),
           serializerDeserializerMajorMinorIndex =
             (serializerDeserializerMajorMinorIndex p)(mj \<mapsto> byMajor(mn \<mapsto> index)) \<rparr>)"

text \<open>A packer after a sequence of registrations, the first of the list registered first.\<close>

definition registerAll :: "(string \<times> 'v XYOSerializer) list \<Rightarrow> 'v XyoPacker" where
  "registerAll regs =
     foldl (\<lambda>p (name, s). registerSerializerDeserializer name s p) newXyoPacker regs"

text \<open>
  \<^verbatim>\<open>encodedSize\<close>: no prefix when the width is falsy; the switch writes the widths 1, 2
  and 4 and leaves a buffer of any other width as the runtime allocates it, zero-filled.
\<close>

definition encodedSize :: "nat \<Rightarrow> 'v XYOSerializer \<Rightarrow> xyo_error + buffer" where
  "encodedSize sizeOfData config =
     (let w = sizeOfBytesToRead config in
      if w = 0 then Inr []
      else if w = 1 then writeUInt8 (sizeOfData + w)
      else if w = 2 then writeUInt16BE (sizeOfData + w)
      else if w = 4 then writeUInt32BE (sizeOfData + w)
      else Inr (replicate w 0))"

definition makeTyped :: "buffer \<Rightarrow> 'v XYOSerializer \<Rightarrow> xyo_error + buffer" where
  "makeTyped data config =
     (case encodedSize (length data) config of
        Inl e \<Rightarrow> Inl e
      | Inr encodedSizeBuffer \<Rightarrow> Inr (serializer_id config @ encodedSizeBuffer @ data))"

definition makeUntyped :: "buffer \<Rightarrow> 'v XYOSerializer \<Rightarrow> xyo_error + buffer" where
  "makeUntyped data config =
     (case encodedSize (length data) config of
        Inl e \<Rightarrow> Inl e
      | Inr encodedSizeBuffer \<Rightarrow> Inr (encodedSizeBuffer @ data))"

text \<open>
  The lookup shared by \<^verbatim>\<open>serialize\<close> and \<^verbatim>\<open>deserialize\<close>: a major record, a minor entry
  that is a number, and an index in range of the collection.
\<close>

definition findSerializer :: "'v XyoPacker \<Rightarrow> byte \<Rightarrow> byte \<Rightarrow> 'v XYOSerializer option" where
  "findSerializer p mj mn =
     (case serializerDeserializerMajorMinorIndex p mj of
        None \<Rightarrow> None
      | Some byMinor \<Rightarrow>
          (case byMinor mn of
             None \<Rightarrow> None
           | Some index \<Rightarrow>
               if index < length (serializerDeserializersCollection p)
               then Some (serializerDeserializersCollection p ! index)
               else None))"

text \<open>The framing argument \<^verbatim>\<open>typed\<close>: \<open>None\<close> is \<^verbatim>\<open>undefined\<close> (raw).\<close>

definition serialize :: "'v XyoPacker \<Rightarrow> 'v \<Rightarrow> byte \<Rightarrow> byte \<Rightarrow> bool option \<Rightarrow> xyo_error + buffer" where
  "serialize p object mj mn typed =
     (case findSerializer p mj mn of
        None \<Rightarrow> Inl ERR_CREATOR_MAPPING
      | Some serializer \<Rightarrow>
          (case serializer_serialize serializer object of
             Inl e \<Rightarrow> Inl e
           | Inr serialized \<Rightarrow>
               (case typed of
                  None \<Rightarrow> Inr serialized
                | Some True \<Rightarrow> makeTyped serialized serializer
                | Some False \<Rightarrow> makeUntyped serialized serializer)))"

definition deserialize :: "'v XyoPacker \<Rightarrow> buffer \<Rightarrow> xyo_error + 'v" where
  "deserialize p buffer =
     (if length buffer < 2 then Inl ERR_CREATOR_MAPPING
      else
        (case findSerializer p (buffer ! 0) (buffer ! 1) of
           None \<Rightarrow> Inl ERR_CREATOR_MAPPING
         | Some serializer \<Rightarrow> serializer_deserialize serializer (drop 2 buffer)))"

text \<open>
  \<^verbatim>\<open>getSerializerByMajorMinor\<close> indexes the major record without a guard: a missing major
  record is a \<^verbatim>\<open>TypeError\<close>, a missing minor entry compares \<^verbatim>\<open>undefined\<close> with the length
  and returns \<^verbatim>\<open>undefined\<close>.
\<close>

definition getSerializerByMajorMinor ::
  "'v XyoPacker \<Rightarrow> byte \<Rightarrow> byte \<Rightarrow> xyo_error + 'v XYOSerializer option" where
  "getSerializerByMajorMinor p mj mn =
     (case serializerDeserializerMajorMinorIndex p mj of
        None \<Rightarrow> Inl ERR_TYPE_ERROR
      | Some byMinor \<Rightarrow>
          (case byMinor mn of
             None \<Rightarrow> Inr None
           | Some index \<Rightarrow>
               if index < length (serializerDeserializersCollection p)
               then Inr (Some (serializerDeserializersCollection p ! index))
               else Inr None))"

text \<open>
  \<^verbatim>\<open>getSerializerByName\<close> throws when the name reads as \<^verbatim>\<open>undefined\<close> or as an index out
  of range. An inherited property is neither: it compares false with the length, and the
  collection read at it is \<^verbatim>\<open>undefined\<close>, which is returned (\<open>Inr None\<close>).
\<close>

definition getSerializerByName ::
  "'v XyoPacker \<Rightarrow> string \<Rightarrow> xyo_error + 'v XYOSerializer option" where
  "getSerializerByName p name =
     (if name = ''__proto__'' then Inr None
      else
        (case serializerDeserializersByNameIndex p name of
           None \<Rightarrow>
             if name \<in> set inheritedPropertyNames then Inr None
             else Inl ERR_CREATOR_MAPPING
         | Some serializerIndex \<Rightarrow>
             if serializerIndex \<ge> length (serializerDeserializersCollection p)
             then Inl ERR_CREATOR_MAPPING
             else Inr (Some (serializerDeserializersCollection p ! serializerIndex))))"

text \<open>The serializer in effect for a pair after a list of registrations: the last one.\<close>

definition lastRegistered ::
  "(string \<times> 'v XYOSerializer) list \<Rightarrow> byte \<Rightarrow> byte \<Rightarrow> 'v XYOSerializer option" where
  "lastRegistered regs mj mn =
     find (\<lambda>s. major s = mj \<and> minor s = mn) (rev (map snd regs))"

definition majorRegistered :: "(string \<times> 'v XYOSerializer) list \<Rightarrow> byte \<Rightarrow> bool" where
  "majorRegistered regs mj = (find (\<lambda>s. major s = mj) (map snd regs) \<noteq> None)"

section \<open>The TCP pipe (xyo-tcp-network-pipe.ts)\<close>

text \<open>
  The socket is the list of buffers written to it and whether it was ended. A promise is
  fulfilled, rejected, or never settles.
\<close>

record socket =
  socketWrites :: "buffer list"
  socketEnded :: bool

datatype 'a promise = Fulfilled 'a | RejectedWith xyo_error | NeverSettles

definition padBufferWithSize :: "buffer \<Rightarrow> xyo_error + buffer" where
  "padBufferWithSize b =
     (case writeUInt32BE (length b + 4) of
        Inl e \<Rightarrow> Inl e
      | Inr sizeBuffer \<Rightarrow> Inr (sizeBuffer @ b))"

text \<open>
  The listener built by \<^verbatim>\<open>onSendOnDataFn\<close>, run over the chunks the socket delivers:
  \<open>data\<close> and \<open>sizeOfPayload\<close> are its two captured variables.
\<close>

fun onSendOnData ::
  "buffer option \<Rightarrow> nat option \<Rightarrow> buffer list \<Rightarrow> socket \<Rightarrow> buffer option promise \<times> socket" where
  "onSendOnData data sizeOfPayload [] sock = (NeverSettles, sock)"
| "onSendOnData data sizeOfPayload (chunk # chunks) sock =
     (if data = None \<and> length chunk < 4
      then (RejectedWith ERR_CRITICAL, sock\<lparr>socketEnded := True\<rparr>)
      else
        (let sizeOfPayload' =
               (if data = None then Some (readUIntBE (take 4 chunk)) else sizeOfPayload);
             data' = (case data of None \<Rightarrow> [] | Some d \<Rightarrow> d) @ chunk
         in if sizeOfPayload' = Some (length data')
            then (Fulfilled (Some (drop 4 data')), sock)
            else onSendOnData (Some data') sizeOfPayload' chunks sock))"

text \<open>
  \<^verbatim>\<open>send\<close>: \<open>awaitResponse\<close> is \<open>None\<close> for \<^verbatim>\<open>undefined\<close>; \<open>chunks\<close> are the chunks the
  socket delivers afterwards. A throw of \<^verbatim>\<open>padBufferWithSize\<close> leaves the socket untouched.
\<close>

definition XyoTcpNetworkPipe_send ::
  "buffer \<Rightarrow> bool option \<Rightarrow> buffer list \<Rightarrow> socket \<Rightarrow> xyo_error + (buffer option promise \<times> socket)" where
  "XyoTcpNetworkPipe_send message awaitResponse chunks sock =
     (case padBufferWithSize message of
        Inl e \<Rightarrow> Inl e
      | Inr networkMessage \<Rightarrow>
          (let sock' = sock\<lparr>socketWrites := socketWrites sock @ [networkMessage]\<rparr> in
           if awaitResponse = Some False then Inr (Fulfilled None, sock')
           else Inr (onSendOnData None None chunks sock')))"

definition XyoTcpNetworkPipe_close :: "socket \<Rightarrow> socket" where
  "XyoTcpNetworkPipe_close sock = sock\<lparr>socketEnded := True\<rparr>"

section \<open>The bound-witness interaction (xyo-bound-witness-interaction.ts)\<close>

text \<open>
  The class \<^verbatim>\<open>XyoBoundWitnessInteraction\<close> is the second file of
  \<^verbatim>\<open>src/xyo-hashing/md5/xyo-md5-hash-provider.ts\<close>.
  What \<^verbatim>\<open>run\<close> uses and the source files do not contain is a parameter: the two
  catalogue constants, the catalogue item, the zig-zag bound witness (its constructor
  result and \<^verbatim>\<open>incomingData\<close>, which returns the transfer and the updated bound witness),
  the major and minor of an object, and the name of the transfer class. The environment
  also fixes the chunks the peer answers with and, for each suspension point of \<^verbatim>\<open>run\<close>,
  whether the disconnect listener fires while \<^verbatim>\<open>run\<close> is suspended there:
  1 \<^verbatim>\<open>startBoundWitness\<close>, 2 the first \<^verbatim>\<open>incomingData\<close>, 3 the awaited \<^verbatim>\<open>send\<close>,
  4 the second \<^verbatim>\<open>incomingData\<close>, 5 the final \<^verbatim>\<open>send\<close>.
\<close>

record 'v interaction_env =
  XYO_TCP_CATALOGUE_LENGTH_IN_BYTES :: nat
  XYO_TCP_CATALOGUE_SIZE_OF_SIZE_BYTES :: nat
  BOUND_WITNESS :: nat
  newXyoZigZagBoundWitness :: 'v
  incomingData :: "'v \<Rightarrow> 'v option \<Rightarrow> bool \<Rightarrow> xyo_error + ('v \<times> 'v)"
  objectMajor :: "'v \<Rightarrow> byte"
  objectMinor :: "'v \<Rightarrow> byte"
  XyoBoundWitnessTransfer_name :: string
  incomingChunks :: "buffer list"
  disconnectDuring :: "nat \<Rightarrow> bool"

text \<open>
  \<^verbatim>\<open>new Buffer(n)\<close> followed by one write at offset 0: the write throws when the buffer
  is too short or the value too large; the bytes after the field stay zero.
\<close>

definition newBufferWriteUInt32BE :: "nat \<Rightarrow> nat \<Rightarrow> xyo_error + buffer" where
  "newBufferWriteUInt32BE n v =
     (if n < 4 then Inl ERR_OUT_OF_RANGE
      else (case writeUInt32BE v of
              Inl e \<Rightarrow> Inl e
            | Inr bs \<Rightarrow> Inr (bs @ replicate (n - 4) 0)))"

definition newBufferWriteUInt8 :: "nat \<Rightarrow> nat \<Rightarrow> xyo_error + buffer" where
  "newBufferWriteUInt8 n v =
     (if n < 1 then Inl ERR_OUT_OF_RANGE
      else (case writeUInt8 v of
              Inl e \<Rightarrow> Inl e
            | Inr bs \<Rightarrow> Inr (bs @ replicate (n - 1) 0)))"

text \<open>
  The executor of \<^verbatim>\<open>run\<close> is an async function inside \<^verbatim>\<open>new Promise\<close>: a throw in it, or
  an awaited promise that rejects or never settles, leaves the promise of \<^verbatim>\<open>run\<close> pending.
  The part after the response has arrived:
\<close>

definition run_afterResponse ::
  "'v XyoPacker \<Rightarrow> 'v interaction_env \<Rightarrow> 'v \<Rightarrow> buffer \<Rightarrow> socket \<Rightarrow> 'v promise \<times> socket" where
  "run_afterResponse xyoPacker env boundWitness response sock =
     (case getSerializerByName xyoPacker (XyoBoundWitnessTransfer_name env) of
        Inl e \<Rightarrow> (NeverSettles, sock)
      | Inr None \<Rightarrow> (NeverSettles, sock)
      | Inr (Some transferSerializer) \<Rightarrow>
     (case serializer_deserialize transferSerializer response of
        Inl e \<Rightarrow> (NeverSettles, sock)
      | Inr transferObj \<Rightarrow>
     (case incomingData env boundWitness (Some transferObj) False of
        Inl e \<Rightarrow> (NeverSettles, sock)
      | Inr (transfer, boundWitness') \<Rightarrow>
     (case serialize xyoPacker boundWitness' (objectMajor env boundWitness')
             (objectMinor env boundWitness') (Some True) of
        Inl e \<Rightarrow> (NeverSettles, sock)
      | Inr logged \<Rightarrow>
     (if disconnectDuring env 3 \<or> disconnectDuring env 4
      then (RejectedWith ERR_CRITICAL, sock)
      else
     (case serialize xyoPacker transfer (objectMajor env transfer)
             (objectMinor env transfer) (Some False) of
        Inl e \<Rightarrow> (NeverSettles, sock)
      | Inr transferBytes \<Rightarrow>
     (case XyoTcpNetworkPipe_send transferBytes (Some False) [] sock of
        Inl e \<Rightarrow> (NeverSettles, sock)
      | Inr (sent, sock') \<Rightarrow>
          (Fulfilled boundWitness', XyoTcpNetworkPipe_close sock'))))))))"

definition run :: "'v XyoPacker \<Rightarrow> 'v interaction_env \<Rightarrow> socket \<Rightarrow> 'v promise \<times> socket" where
  "run xyoPacker env sock =
     (if disconnectDuring env 1 then (RejectedWith ERR_CRITICAL, sock)
      else
     (case incomingData env (newXyoZigZagBoundWitness env) None False of
        Inl e \<Rightarrow> (NeverSettles, sock)
      | Inr (boundWitnessTransfer1, boundWitness) \<Rightarrow>
     (case serialize xyoPacker boundWitness (objectMajor env boundWitness)
             (objectMinor env boundWitness) (Some True) of
        Inl e \<Rightarrow> (NeverSettles, sock)
      | Inr logged \<Rightarrow>
     (case serialize xyoPacker boundWitnessTransfer1 (objectMajor env boundWitnessTransfer1)
             (objectMinor env boundWitnessTransfer1) (Some False) of
        Inl e \<Rightarrow> (NeverSettles, sock)
      | Inr bytes \<Rightarrow>
     (case newBufferWriteUInt32BE (XYO_TCP_CATALOGUE_LENGTH_IN_BYTES env) (BOUND_WITNESS env) of
        Inl e \<Rightarrow> (NeverSettles, sock)
      | Inr catalogueBuffer \<Rightarrow>
     (case newBufferWriteUInt8 (XYO_TCP_CATALOGUE_SIZE_OF_SIZE_BYTES env)
             (XYO_TCP_CATALOGUE_LENGTH_IN_BYTES env) of
        Inl e \<Rightarrow> (NeverSettles, sock)
      | Inr sizeOfCatalogueInBytesBuffers \<Rightarrow>
     (let bytesToSend = sizeOfCatalogueInBytesBuffers @ catalogueBuffer @ bytes in
      if disconnectDuring env 2 then (RejectedWith ERR_CRITICAL, sock)
      else
     (case XyoTcpNetworkPipe_send bytesToSend None (incomingChunks env) sock of
        Inl e \<Rightarrow> (NeverSettles, sock)
      | Inr (Fulfilled (Some response), sock') \<Rightarrow>
          run_afterResponse xyoPacker env boundWitness response sock'
      | Inr (Fulfilled None, sock') \<Rightarrow> (NeverSettles, sock')
      | Inr (RejectedWith e, sock') \<Rightarrow> (NeverSettles, sock')
      | Inr (NeverSettles, sock') \<Rightarrow> (NeverSettles, sock')))))))))"

text \<open>The messages handed to the pipe between two socket states, without their framing.\<close>

definition outboundMessages :: "socket \<Rightarrow> socket \<Rightarrow> buffer list" where
  "outboundMessages sock sock' =
     map (drop 4) (drop (length (socketWrites sock)) (socketWrites sock'))"

section \<open>The origin-chain repository (origin-chain/src/@types/index.ts)\<close>

text \<open>
  Modelled from the spec: the state of the repository. The source files declare the
  repository as an interface only (\<^verbatim>\<open>IXyoOriginChainRepository\<close>); the state is the
  "OriginChain state (per peer)" of the specification.
\<close>

record ('signer, 'hash, 'key) originChainState =
  index :: nat
  previous_hash :: "'hash option"
  current_signers :: "'signer list"
  waiting_signers :: "'signer list"
  next_public_key :: "'key option"

text \<open>Modelled from the spec: the repository as it is created ("created empty").\<close>

definition genesisState :: "('signer, 'hash, 'key) originChainState" where
  "genesisState =
     \<lparr> index = 0, previous_hash = None, current_signers = [], waiting_signers = [],
       next_public_key = None \<rparr>"

text \<open>
  Modelled from the spec: \<^verbatim>\<open>updateOriginChainState\<close>, declared by the interface and
  implemented outside the source files: "sets previous_hash := Some(hash);
  index := index + 1; if waiting_signers non-empty, drains the front element into the tail
  of current_signers; clears next_public_key".
\<close>

definition updateOriginChainState ::
  "'hash \<Rightarrow> ('signer, 'hash, 'key) originChainState \<Rightarrow> ('signer, 'hash, 'key) originChainState" where
  "updateOriginChainState hash st =
     (case waiting_signers st of
        [] \<Rightarrow>
          st\<lparr> previous_hash := Some hash, index := index st + 1, next_public_key := None \<rparr>
      | signer # rest \<Rightarrow>
          st\<lparr> previous_hash := Some hash, index := index st + 1,
              current_signers := current_signers st @ [signer], waiting_signers := rest,
              next_public_key := None \<rparr>)"

text \<open>One call of \<^verbatim>\<open>updateOriginChainState\<close> for each hash of a list, in order.\<close>

definition updateAll ::
  "'hash list \<Rightarrow> ('signer, 'hash, 'key) originChainState \<Rightarrow> ('signer, 'hash, 'key) originChainState" where
  "updateAll hashes st = foldl (\<lambda>s h. updateOriginChainState h s) st hashes"

section \<open>The origin-chain verifier\<close>

text \<open>
  Modelled from the spec: the heuristic items, the payload and the bound witness. The
  source files contain the tests of \<^verbatim>\<open>XyoOriginChainVerifier\<close> but not the verifier nor
  the data it reads. A hash is a byte string tagged by its algorithm; keys and signatures
  are byte strings. Each participant of a block contributes its public keys, a payload and
  its signatures, at the same position of the three lists.
\<close>

type_synonym publicKey = buffer
type_synonym signature = buffer

datatype heuristic =
    ChainIndex nat
  | PreviousHash nat buffer
  | NextPublicKey publicKey
  | Rssi int
  | OtherHeuristic byte byte buffer

record payload =
  signed_heuristics :: "heuristic list"
  unsigned_heuristics :: "heuristic list"

record boundWitness =
  public_keys :: "publicKey list list"
  payloads :: "payload list"
  signatures :: "signature list list"

text \<open>
  Modelled from the spec: the capabilities the verifier is given, as parameters:
  signature verification, the hash of a block under an algorithm, and the canonical
  serialization of the public keys and the signed heuristics of a block.
\<close>

record providers =
  verifySignature :: "publicKey \<Rightarrow> buffer \<Rightarrow> signature \<Rightarrow> bool"
  hashBlock :: "nat \<Rightarrow> boundWitness \<Rightarrow> buffer"
  canonicalSerialization :: "publicKey list list \<Rightarrow> heuristic list \<Rightarrow> buffer"

text \<open>
  Modelled from the spec: the error kinds and the report of the verifier,
  "{is_valid, first_invalid_index?, reason?}".
\<close>

datatype errorKind =
    UnknownType
  | Malformed
  | NegotiationAborted
  | SignatureInvalid
  | ChainLinkageInvalid
  | PeerDisconnected
  | NoRotatableSigners
  | RepositoryUnavailable

record report =
  is_valid :: bool
  first_invalid_index :: "nat option"
  reason :: "errorKind option"

definition validReport :: report where
  "validReport = \<lparr> is_valid = True, first_invalid_index = None, reason = None \<rparr>"

definition invalidReport :: "nat \<Rightarrow> errorKind \<Rightarrow> report" where
  "invalidReport k e = \<lparr> is_valid = False, first_invalid_index = Some k, reason = Some e \<rparr>"

text \<open>
  Modelled from the spec: "signing_data is the canonical serialization of (public_keys, all
  signed_heuristics in order)".
\<close>

definition signing_data :: "providers \<Rightarrow> boundWitness \<Rightarrow> buffer" where
  "signing_data pr b =
     canonicalSerialization pr (public_keys b) (concat (map signed_heuristics (payloads b)))"

text \<open>
  Modelled from the spec: every signature of every participant verifies under the public
  key at the same place, over the signing data.
\<close>

definition signaturesVerify :: "providers \<Rightarrow> boundWitness \<Rightarrow> bool" where
  "signaturesVerify pr b =
     (length (public_keys b) = length (signatures b) \<and>
      list_all
        (\<lambda>(keys, sigs). length keys = length sigs \<and>
           list_all (\<lambda>(k, sg). verifySignature pr k (signing_data pr b) sg) (zip keys sigs))
        (zip (public_keys b) (signatures b)))"

text \<open>
  Modelled from the spec: the invariants of a completed block: parallel lists of equal
  length, every signature verifies, no duplicate public key, at least one participant.
\<close>

definition blockInvariants :: "providers \<Rightarrow> boundWitness \<Rightarrow> bool" where
  "blockInvariants pr b =
     (length (public_keys b) = length (payloads b) \<and>
      length (payloads b) = length (signatures b) \<and>
      signaturesVerify pr b \<and>
      distinct (concat (public_keys b)) \<and>
      1 \<le> length (public_keys b))"

text \<open>Modelled from the spec: extraction of an item from a list of heuristics (the first).\<close>

fun extractChainIndex :: "heuristic list \<Rightarrow> nat option" where
  "extractChainIndex [] = None"
| "extractChainIndex (ChainIndex n # hs) = Some n"
| "extractChainIndex (h # hs) = extractChainIndex hs"

fun extractPreviousHash :: "heuristic list \<Rightarrow> (nat \<times> buffer) option" where
  "extractPreviousHash [] = None"
| "extractPreviousHash (PreviousHash alg bytes # hs) = Some (alg, bytes)"
| "extractPreviousHash (h # hs) = extractPreviousHash hs"

fun extractNextPublicKey :: "heuristic list \<Rightarrow> publicKey option" where
  "extractNextPublicKey [] = None"
| "extractNextPublicKey (NextPublicKey p # hs) = Some p"
| "extractNextPublicKey (h # hs) = extractNextPublicKey hs"

text \<open>
  Modelled from the spec: the signed heuristics of the participant at a position of a
  block, if there is one, and the items extracted from them.
\<close>

definition signedHeuristicsOf :: "nat \<Rightarrow> boundWitness \<Rightarrow> heuristic list option" where
  "signedHeuristicsOf party b =
     (if party < length (payloads b) then Some (signed_heuristics (payloads b ! party)) else None)"

definition chainIndexOf :: "nat \<Rightarrow> boundWitness \<Rightarrow> nat option" where
  "chainIndexOf party b =
     (case signedHeuristicsOf party b of None \<Rightarrow> None | Some hs \<Rightarrow> extractChainIndex hs)"

definition previousHashOf :: "nat \<Rightarrow> boundWitness \<Rightarrow> (nat \<times> buffer) option" where
  "previousHashOf party b =
     (case signedHeuristicsOf party b of None \<Rightarrow> None | Some hs \<Rightarrow> extractPreviousHash hs)"

definition nextPublicKeyOf :: "nat \<Rightarrow> boundWitness \<Rightarrow> publicKey option" where
  "nextPublicKeyOf party b =
     (case signedHeuristicsOf party b of None \<Rightarrow> None | Some hs \<Rightarrow> extractNextPublicKey hs)"

text \<open>
  Modelled from the spec: check 3, "for k \<ge> 1, extract PreviousHash and require byte-equal
  to hash(B_{k-1}) using the algorithm declared by the previous hash".
\<close>

definition previousHashLinks :: "providers \<Rightarrow> nat \<Rightarrow> boundWitness \<Rightarrow> boundWitness \<Rightarrow> bool" where
  "previousHashLinks pr party previous b =
     (case previousHashOf party b of
        None \<Rightarrow> False
      | Some (alg, bytes) \<Rightarrow> bytes = hashBlock pr alg previous)"

text \<open>
  Modelled from the spec: check 4, "if B_{k-1} contained a NextPublicKey(p) item
  attributed to P, require that P's set of public keys in B_k contains p".
\<close>

definition nextPublicKeyHonoured :: "nat \<Rightarrow> boundWitness \<Rightarrow> boundWitness \<Rightarrow> bool" where
  "nextPublicKeyHonoured party previous b =
     (case nextPublicKeyOf party previous of
        None \<Rightarrow> True
      | Some p \<Rightarrow> party < length (public_keys b) \<and> p \<in> set (public_keys b ! party))"

text \<open>
  Modelled from the spec: check 2 as the tests read it (scenario S2, "missing index"):
  every participant of a block carries a \<open>ChainIndex\<close> in its signed heuristics.
\<close>

definition everyParticipantIndexed :: "boundWitness \<Rightarrow> bool" where
  "everyParticipantIndexed b =
     list_all (\<lambda>p. extractChainIndex (signed_heuristics p) \<noteq> None) (payloads b)"

text \<open>
  Modelled from the spec: the checks of the verifier along the list, for the peer P at
  position \<open>party\<close> of every block. They run in the order of the specification for each
  block, the expected index being "0 at the earliest block supplied, incrementing by 1";
  the first failure returns the index of the block and an error kind. \<open>k\<close> is the index
  of the block at the head of the list and \<open>previous\<close> the block before it.
\<close>

fun verifyFrom ::
  "providers \<Rightarrow> nat \<Rightarrow> nat \<Rightarrow> boundWitness option \<Rightarrow> boundWitness list \<Rightarrow> report" where
  "verifyFrom pr party k previous [] = validReport"
| "verifyFrom pr party k previous (b # rest) =
     (if \<not> blockInvariants pr b then invalidReport k Malformed
      else if \<not> everyParticipantIndexed b then invalidReport k ChainLinkageInvalid
      else if chainIndexOf party b \<noteq> Some k then invalidReport k ChainLinkageInvalid
      else if (case previous of None \<Rightarrow> False | Some b' \<Rightarrow> \<not> previousHashLinks pr party b' b)
        then invalidReport k ChainLinkageInvalid
      else if (case previous of None \<Rightarrow> False | Some b' \<Rightarrow> \<not> nextPublicKeyHonoured party b' b)
        then invalidReport k ChainLinkageInvalid
      else if \<not> signaturesVerify pr b then invalidReport k SignatureInvalid
      else verifyFrom pr party (Suc k) (Some b) rest)"

text \<open>The positions of the participants of the first block of a list.\<close>

definition participantPositions :: "boundWitness list \<Rightarrow> nat list" where
  "participantPositions blocks =
     (case blocks of [] \<Rightarrow> [] | b # rest \<Rightarrow> [0 ..< length (payloads b)])"

text \<open>
  Modelled from the spec: \<^verbatim>\<open>verify\<close>, called as the tests call it, with the list of blocks
  and no reference to the peer. The peer is identified by position: the list is accepted
  when the checks hold along it for the participant at one position, the positions of the
  first block being tried in order (in the tests the chain of one participant is linked
  and that of the other is not); when they hold for no position the report is that of
  the first one.
\<close>

definition verify :: "providers \<Rightarrow> boundWitness list \<Rightarrow> report" where
  "verify pr blocks =
     (case find (\<lambda>party. is_valid (verifyFrom pr party 0 None blocks))
             (participantPositions blocks) of
        Some party \<Rightarrow> validReport
      | None \<Rightarrow> verifyFrom pr 0 0 None blocks)"

section \<open>Notions used to state the properties\<close>

text \<open>The big-endian representation of a number in \<open>w\<close> bytes.\<close>

fun uintBE :: "nat \<Rightarrow> nat \<Rightarrow> buffer" where
  "uintBE 0 v = []"
| "uintBE (Suc w) v = of_nat (v div 256 ^ w) # uintBE w v"

text \<open>Typed serialization followed by deserialization.\<close>

definition roundTrip :: "'v XyoPacker \<Rightarrow> 'v \<Rightarrow> byte \<Rightarrow> byte \<Rightarrow> xyo_error + 'v" where
  "roundTrip p object mj mn =
     (case serialize p object mj mn (Some True) of
        Inl e \<Rightarrow> Inl e
      | Inr bytes \<Rightarrow> deserialize p bytes)"


section \<open>Concrete instances\<close>

text \<open>
  Objects that are byte strings. The first serializer strips its size prefix of \<open>w\<close> bytes
  when it deserializes; the second one takes its whole input for the payload.
\<close>

definition stripPrefix :: "nat \<Rightarrow> buffer \<Rightarrow> xyo_error + buffer" where
  "stripPrefix w b = Inr (drop w b)"

definition byteStringSerializer :: "nat \<Rightarrow> buffer XYOSerializer" where
  "byteStringSerializer w =
     \<lparr> major = 1, minor = 1, sizeOfBytesToRead = w,
       serializer_serialize = Inr, serializer_deserialize = stripPrefix w \<rparr>"

definition wholeInputSerializer :: "buffer XYOSerializer" where
  "wholeInputSerializer =
     \<lparr> major = 1, minor = 1, sizeOfBytesToRead = 1,
       serializer_serialize = Inr, serializer_deserialize = Inr \<rparr>"

definition examplePacker :: "buffer XyoPacker" where
  "examplePacker = registerAll [(''XyoBoundWitnessTransfer'', byteStringSerializer 1)]"

definition wholeInputPacker :: "buffer XyoPacker" where
  "wholeInputPacker = registerAll [(''Whole'', wholeInputSerializer)]"

definition twicePacker :: "buffer XyoPacker" where
  "twicePacker =
     registerSerializerDeserializer ''Second'' (byteStringSerializer 2)
       (registerSerializerDeserializer ''First'' (byteStringSerializer 1) newXyoPacker)"

text \<open>
  A bound witness that answers the first call with the transfer \<open>[7]\<close> and every later
  call with the transfer \<open>[8]\<close>, collecting what it is given.
\<close>

definition exampleIncomingData ::
  "buffer \<Rightarrow> buffer option \<Rightarrow> bool \<Rightarrow> xyo_error + (buffer \<times> buffer)" where
  "exampleIncomingData bw transfer endPoint =
     (case transfer of None \<Rightarrow> Inr ([7], bw) | Some t \<Rightarrow> Inr ([8], bw @ t))"

definition exampleMajor :: "buffer \<Rightarrow> byte" where
  "exampleMajor object = 1"

definition exampleMinor :: "buffer \<Rightarrow> byte" where
  "exampleMinor object = 1"

definition disconnectAt :: "nat \<Rightarrow> nat \<Rightarrow> bool" where
  "disconnectAt n k = (k = n)"

definition noDisconnect :: "nat \<Rightarrow> bool" where
  "noDisconnect k = False"

definition exampleEnv :: "(nat \<Rightarrow> bool) \<Rightarrow> buffer list \<Rightarrow> buffer interaction_env" where
  "exampleEnv disconnects chunks =
     \<lparr> XYO_TCP_CATALOGUE_LENGTH_IN_BYTES = 4,
       XYO_TCP_CATALOGUE_SIZE_OF_SIZE_BYTES = 1,
       BOUND_WITNESS = 1,
       newXyoZigZagBoundWitness = [],
       incomingData = exampleIncomingData,
       objectMajor = exampleMajor,
       objectMinor = exampleMinor,
       XyoBoundWitnessTransfer_name = ''XyoBoundWitnessTransfer'',
       incomingChunks = chunks,
       disconnectDuring = disconnects \<rparr>"

definition exampleResponse :: "buffer list" where
  "exampleResponse = [[0, 0, 0, 6, 2, 9]]"

definition freshSocket :: socket where
  "freshSocket = \<lparr> socketWrites = [], socketEnded = False \<rparr>"

text \<open>
  Providers whose signatures always verify, as those of the stub signature do, and whose
  hash of a block is the list of its public keys.
\<close>

definition stubVerify :: "publicKey \<Rightarrow> buffer \<Rightarrow> signature \<Rightarrow> bool" where
  "stubVerify k d sg = True"

definition keysHash :: "nat \<Rightarrow> boundWitness \<Rightarrow> buffer" where
  "keysHash alg b = concat (concat (public_keys b))"

definition emptySerialization :: "publicKey list list \<Rightarrow> heuristic list \<Rightarrow> buffer" where
  "emptySerialization keys hs = []"

definition exampleProviders :: providers where
  "exampleProviders =
     \<lparr> verifySignature = stubVerify, hashBlock = keysHash,
       canonicalSerialization = emptySerialization \<rparr>"

definition exampleBlock1 :: boundWitness where
  "exampleBlock1 =
     \<lparr> public_keys = [[[1]], [[2]]],
       payloads =
         [\<lparr> signed_heuristics = [ChainIndex 0], unsigned_heuristics = [Rssi (- 5)] \<rparr>,
          \<lparr> signed_heuristics = [ChainIndex 0], unsigned_heuristics = [Rssi (- 10)] \<rparr>],
       signatures = [[[0]], [[0]]] \<rparr>"

text \<open>
  The blocks of the scenarios of the tests of the verifier: S2 (the second participant has
  no signed heuristics), S4 (the second block declares the index 2), S5 (the first block
  commits to the next public key \<open>[3]\<close>; the second block is signed by it, or by \<open>[5]\<close>).
\<close>

definition blockWithoutIndex :: boundWitness where
  "blockWithoutIndex =
     \<lparr> public_keys = [[[1]], [[2]]],
       payloads =
         [\<lparr> signed_heuristics = [ChainIndex 0], unsigned_heuristics = [Rssi (- 5)] \<rparr>,
          \<lparr> signed_heuristics = [], unsigned_heuristics = [Rssi (- 10)] \<rparr>],
       signatures = [[[0]], [[0]]] \<rparr>"

definition blockWithIndex2 :: boundWitness where
  "blockWithIndex2 =
     \<lparr> public_keys = [[[3]], [[4]]],
       payloads =
         [\<lparr> signed_heuristics = [ChainIndex 2, PreviousHash 0 [1, 2]],
            unsigned_heuristics = [Rssi (- 5)] \<rparr>,
          \<lparr> signed_heuristics = [ChainIndex 0], unsigned_heuristics = [Rssi (- 10)] \<rparr>],
       signatures = [[[0]], [[0]]] \<rparr>"

definition committingBlock :: boundWitness where
  "committingBlock =
     \<lparr> public_keys = [[[1]], [[2]]],
       payloads =
         [\<lparr> signed_heuristics = [ChainIndex 0, NextPublicKey [3]],
            unsigned_heuristics = [Rssi (- 5)] \<rparr>,
          \<lparr> signed_heuristics = [ChainIndex 1], unsigned_heuristics = [Rssi (- 10)] \<rparr>],
       signatures = [[[0]], [[0]]] \<rparr>"

definition blockSignedBy :: "publicKey \<Rightarrow> boundWitness" where
  "blockSignedBy key =
     \<lparr> public_keys = [[key], [[4]]],
       payloads =
         [\<lparr> signed_heuristics = [ChainIndex 1, PreviousHash 0 [1, 2]],
            unsigned_heuristics = [Rssi (- 5)] \<rparr>,
          \<lparr> signed_heuristics = [ChainIndex 2, PreviousHash 0 [9, 9]],
            unsigned_heuristics = [Rssi (- 10)] \<rparr>],
       signatures = [[[0]], [[0]]] \<rparr>"

definition exampleBlock2 :: boundWitness where
  "exampleBlock2 =
     \<lparr> public_keys = [[[3]], [[4]]],
       payloads =
         [\<lparr> signed_heuristics = [ChainIndex 1, PreviousHash 0 [1, 2]],
            unsigned_heuristics = [Rssi (- 5)] \<rparr>,
          \<lparr> signed_heuristics = [ChainIndex 0], unsigned_heuristics = [Rssi (- 10)] \<rparr>],
       signatures = [[[0]], [[0]]] \<rparr>"

section \<open>Big-endian fields\<close>

lemma length_uintBE: "length (uintBE w v) = w"
  by (induction w) simp_all

lemma foldl_uintBE:
  "foldl (\<lambda>acc b. acc * 256 + unat b) a (uintBE w v) = a * 256 ^ w + v mod 256 ^ w"
proof (induction w arbitrary: a)
  case 0
  show ?case by simp
next
  case (Suc w)
  have split: "v mod (256 ^ w * 256) = 256 ^ w * (v div 256 ^ w mod 256) + v mod 256 ^ w"
    by (rule mod_mult2_eq)
  have "foldl (\<lambda>acc b. acc * 256 + unat b) a (uintBE (Suc w) v) =
        (a * 256 + v div 256 ^ w mod 256) * 256 ^ w + v mod 256 ^ w"
    by (simp add: Suc unat_of_nat)
  also have "\<dots> = a * 256 ^ Suc w + (256 ^ w * (v div 256 ^ w mod 256) + v mod 256 ^ w)"
    by (simp add: algebra_simps)
  also have "\<dots> = a * 256 ^ Suc w + v mod 256 ^ Suc w"
    using split by (simp add: mult.commute)
  finally show ?case .
qed

lemma readUIntBE_uintBE: "readUIntBE (uintBE w v) = v mod 256 ^ w"
  by (simp add: readUIntBE_def foldl_uintBE)

lemma uintBE_2: "uintBE 2 v = [of_nat (v div 256), of_nat v]"
  by (simp add: numeral_2_eq_2)

lemma uintBE_4:
  "uintBE 4 v = [of_nat (v div 16777216), of_nat (v div 65536), of_nat (v div 256), of_nat v]"
proof -
  have four: "(4::nat) = Suc (Suc (Suc (Suc 0)))" by simp
  show ?thesis unfolding four by simp
qed

lemma writeUInt8_eq: "writeUInt8 v = (if v < 256 ^ 1 then Inr (uintBE 1 v) else Inl ERR_OUT_OF_RANGE)"
  by (simp add: writeUInt8_def)

lemma writeUInt16BE_eq:
  "writeUInt16BE v = (if v < 256 ^ 2 then Inr (uintBE 2 v) else Inl ERR_OUT_OF_RANGE)"
  by (simp add: writeUInt16BE_def uintBE_2)

lemma writeUInt32BE_eq:
  "writeUInt32BE v = (if v < 256 ^ 4 then Inr (uintBE 4 v) else Inl ERR_OUT_OF_RANGE)"
  by (simp add: writeUInt32BE_def uintBE_4)

lemma encodedSize_fits:
  assumes "sizeOfBytesToRead s \<in> {0, 1, 2, 4}"
    and "sizeOfBytesToRead s = 0 \<or> n + sizeOfBytesToRead s < 256 ^ sizeOfBytesToRead s"
  shows "encodedSize n s = Inr (uintBE (sizeOfBytesToRead s) (n + sizeOfBytesToRead s))"
proof -
  consider "sizeOfBytesToRead s = 0" | "sizeOfBytesToRead s = 1" | "sizeOfBytesToRead s = 2"
    | "sizeOfBytesToRead s = 4"
    using assms(1) by auto
  then show ?thesis
  proof cases
    case 1
    then show ?thesis by (simp add: encodedSize_def)
  next
    case 2
    with assms(2) show ?thesis by (simp add: encodedSize_def writeUInt8_eq)
  next
    case 3
    with assms(2) show ?thesis by (simp add: encodedSize_def writeUInt16BE_eq)
  next
    case 4
    with assms(2) show ?thesis by (simp add: encodedSize_def writeUInt32BE_eq)
  qed
qed

section \<open>The registry after a sequence of registrations\<close>

lemma registerAll_snoc:
  "registerAll (regs @ [(name, s)]) = registerSerializerDeserializer name s (registerAll regs)"
  by (simp add: registerAll_def)

lemma registerAll_collection:
  "serializerDeserializersCollection (registerAll regs) = map snd regs"
proof (induction regs rule: rev_induct)
  case Nil
  show ?case by (simp add: registerAll_def newXyoPacker_def)
next
  case (snoc x xs)
  obtain name s where x: "x = (name, s)" by (cases x)
  show ?case
    unfolding x registerAll_snoc using snoc
    by (simp add: registerSerializerDeserializer_def Let_def)
qed

lemma lastRegistered_snoc:
  "lastRegistered (regs @ [(name, s)]) mj mn =
     (if major s = mj \<and> minor s = mn then Some s else lastRegistered regs mj mn)"
  by (simp add: lastRegistered_def)

lemma majorRegistered_snoc:
  "majorRegistered (regs @ [(name, s)]) mj \<longleftrightarrow> major s = mj \<or> majorRegistered regs mj"
  by (auto simp: majorRegistered_def find_None_iff)

lemma registerAll_major_index:
  "(serializerDeserializerMajorMinorIndex (registerAll regs) mj = None) \<longleftrightarrow> \<not> majorRegistered regs mj"
proof (induction regs rule: rev_induct)
  case Nil
  show ?case by (simp add: registerAll_def newXyoPacker_def majorRegistered_def)
next
  case (snoc x xs)
  obtain name s where x: "x = (name, s)" by (cases x)
  show ?case
    unfolding x registerAll_snoc majorRegistered_snoc using snoc
    by (auto simp add: registerSerializerDeserializer_def Let_def)
qed

lemma registerAll_minor_index:
  "serializerDeserializerMajorMinorIndex (registerAll regs) mj = Some byMinor \<Longrightarrow>
     (case byMinor mn of
        None \<Rightarrow> lastRegistered regs mj mn = None
      | Some i \<Rightarrow> i < length regs \<and> lastRegistered regs mj mn = Some (map snd regs ! i))"
proof (induction regs arbitrary: byMinor rule: rev_induct)
  case Nil
  then show ?case by (simp add: registerAll_def newXyoPacker_def)
next
  case (snoc x xs)
  obtain name s where x: "x = (name, s)" by (cases x)
  have none: "serializerDeserializerMajorMinorIndex (registerAll xs) mj = None \<Longrightarrow> lastRegistered xs mj mn = None"
    using registerAll_major_index[of xs mj]
    by (auto simp: majorRegistered_def lastRegistered_def find_None_iff)
  from snoc.prems show ?case
    unfolding x registerAll_snoc lastRegistered_snoc
    using snoc.IH none
    by (auto simp add: registerSerializerDeserializer_def Let_def registerAll_collection nth_append
          split: option.splits if_splits)
qed

lemma findSerializer_registerAll:
  "findSerializer (registerAll regs) mj mn = lastRegistered regs mj mn"
proof (cases "serializerDeserializerMajorMinorIndex (registerAll regs) mj")
  case None
  then have "lastRegistered regs mj mn = None"
    using registerAll_major_index[of regs mj]
    by (auto simp: majorRegistered_def lastRegistered_def find_None_iff)
  with None show ?thesis by (simp add: findSerializer_def)
next
  case (Some byMinor)
  from registerAll_minor_index[OF Some, of mn] Some show ?thesis
    by (auto simp: findSerializer_def registerAll_collection split: option.splits)
qed

section \<open>The verifier walks the chain\<close>



section \<open>Facts shared by the properties of the packer\<close>

lemma lastRegistered_Some:
  "lastRegistered regs mj mn = Some s \<Longrightarrow> major s = mj \<and> minor s = mn"
  by (auto simp: lastRegistered_def find_Some_iff)

lemma example_lookup:
  "lastRegistered [(''XyoBoundWitnessTransfer'', byteStringSerializer 1)] 1 1 =
     Some (byteStringSerializer 1)"
  by (simp add: lastRegistered_def byteStringSerializer_def)

section \<open>Facts shared by the properties of the pipe and of the interaction\<close>

lemma padBufferWithSize_fits:
  "length b + 4 < 2 ^ 32 \<Longrightarrow> padBufferWithSize b = Inr (uintBE 4 (length b + 4) @ b)"
  by (simp add: padBufferWithSize_def writeUInt32BE_eq)

lemma padBufferWithSize_Inr:
  "padBufferWithSize b = Inr m \<Longrightarrow> drop 4 m = b \<and> m = uintBE 4 (length b + 4) @ b"
  by (auto simp: padBufferWithSize_def writeUInt32BE_eq length_uintBE split: if_splits)

lemma onSendOnData_writes:
  "socketWrites (snd (onSendOnData d sz chunks sock)) = socketWrites sock"
  by (induction d sz chunks sock rule: onSendOnData.induct) (simp_all add: Let_def)

lemma send_Inr:
  assumes "XyoTcpNetworkPipe_send m aw chunks sock = Inr (pr, sock')"
  shows "socketWrites sock' = socketWrites sock @ [uintBE 4 (length m + 4) @ m]"
proof -
  from assms obtain nm where nm: "padBufferWithSize m = Inr nm"
    by (auto simp: XyoTcpNetworkPipe_send_def split: sum.splits)
  then have nm_eq: "nm = uintBE 4 (length m + 4) @ m"
    using padBufferWithSize_Inr by blast
  show ?thesis
  proof (cases "aw = Some False")
    case True
    with assms nm nm_eq show ?thesis
      by (auto simp: XyoTcpNetworkPipe_send_def Let_def)
  next
    case False
    with assms nm have "(pr, sock') =
        onSendOnData None None chunks (sock\<lparr>socketWrites := socketWrites sock @ [nm]\<rparr>)"
      by (simp add: XyoTcpNetworkPipe_send_def Let_def)
    then have "socketWrites sock' =
        socketWrites (snd (onSendOnData None None chunks (sock\<lparr>socketWrites := socketWrites sock @ [nm]\<rparr>)))"
      by (metis snd_conv)
    then show ?thesis using nm_eq by (simp add: onSendOnData_writes)
  qed
qed

lemma newBufferWriteUInt32BE_4:
  "newBufferWriteUInt32BE 4 v = Inr bs \<Longrightarrow> bs = uintBE 4 v \<and> v < 2 ^ 32"
  by (auto simp: newBufferWriteUInt32BE_def writeUInt32BE_eq split: if_splits)

lemma outboundMessages_same:
  "socketWrites sock' = socketWrites sock \<Longrightarrow> outboundMessages sock sock' = []"
  by (simp add: outboundMessages_def)

lemma outboundMessages_one:
  "socketWrites sock' = socketWrites sock @ [uintBE 4 n @ m] \<Longrightarrow>
     outboundMessages sock sock' = [m]"
  by (simp add: outboundMessages_def length_uintBE)

lemma outboundMessages_two:
  "socketWrites sock' = (socketWrites sock @ [uintBE 4 n @ m]) @ [uintBE 4 n' @ m'] \<Longrightarrow>
     outboundMessages sock sock' = [m, m']"
  by (simp add: outboundMessages_def length_uintBE)

lemma run_afterResponse_cases:
  assumes "run_afterResponse xyoPacker env bw response sock = (outcome, sock')"
  shows "(outcome = NeverSettles \<and> sock' = sock)
       \<or> (outcome = RejectedWith ERR_CRITICAL \<and> sock' = sock \<and>
            (disconnectDuring env 3 \<or> disconnectDuring env 4))
       \<or> (\<exists>transferObj transfer bw' transferBytes.
            incomingData env bw (Some transferObj) False = Inr (transfer, bw') \<and>
            serialize xyoPacker transfer (objectMajor env transfer) (objectMinor env transfer)
              (Some False) = Inr transferBytes \<and>
            outcome = Fulfilled bw' \<and>
            \<not> disconnectDuring env 3 \<and> \<not> disconnectDuring env 4 \<and>
            socketWrites sock' =
              socketWrites sock @ [uintBE 4 (length transferBytes + 4) @ transferBytes])"
  using assms
  by (auto simp: run_afterResponse_def XyoTcpNetworkPipe_close_def
      split: sum.splits prod.splits if_splits option.splits dest!: send_Inr) blast+

lemma run_cases:
  assumes "run xyoPacker env sock = (outcome, sock')"
  shows "(outcome = NeverSettles \<and> sock' = sock)
       \<or> (outcome = RejectedWith ERR_CRITICAL \<and> sock' = sock \<and>
            (disconnectDuring env 1 \<or> disconnectDuring env 2))
       \<or> (\<exists>t1 bw1 bytes catalogueBuffer sizeBuffer sock1.
            \<not> disconnectDuring env 1 \<and> \<not> disconnectDuring env 2 \<and>
            incomingData env (newXyoZigZagBoundWitness env) None False = Inr (t1, bw1) \<and>
            serialize xyoPacker t1 (objectMajor env t1) (objectMinor env t1) (Some False) =
              Inr bytes \<and>
            newBufferWriteUInt32BE (XYO_TCP_CATALOGUE_LENGTH_IN_BYTES env) (BOUND_WITNESS env) =
              Inr catalogueBuffer \<and>
            newBufferWriteUInt8 (XYO_TCP_CATALOGUE_SIZE_OF_SIZE_BYTES env)
              (XYO_TCP_CATALOGUE_LENGTH_IN_BYTES env) = Inr sizeBuffer \<and>
            socketWrites sock1 =
              socketWrites sock @
                [uintBE 4 (length (sizeBuffer @ catalogueBuffer @ bytes) + 4) @
                 (sizeBuffer @ catalogueBuffer @ bytes)] \<and>
            ((outcome = NeverSettles \<and> sock' = sock1) \<or>
             (\<exists>response. run_afterResponse xyoPacker env bw1 response sock1 = (outcome, sock'))))"
  using assms
  by (auto simp: run_def Let_def
      split: sum.splits prod.splits if_splits promise.splits option.splits dest!: send_Inr)

lemma run_ignores_final_point:
  assumes "f 1 = disconnectDuring env 1" "f 2 = disconnectDuring env 2"
    "f 3 = disconnectDuring env 3" "f 4 = disconnectDuring env 4"
  shows "run xyoPacker (env\<lparr>disconnectDuring := f\<rparr>) sock = run xyoPacker env sock"
proof -
  have after: "run_afterResponse xyoPacker (env\<lparr>disconnectDuring := f\<rparr>) bw response s =
      run_afterResponse xyoPacker env bw response s" for bw response s
    using assms
    by (simp add: run_afterResponse_def
        cong: sum.case_cong prod.case_cong option.case_cong if_cong)
  show ?thesis
    using assms
    by (simp add: run_def Let_def after
        cong: sum.case_cong prod.case_cong option.case_cong promise.case_cong if_cong)
qed

lemmas example_defs =
  run_def run_afterResponse_def exampleEnv_def examplePacker_def byteStringSerializer_def
  stripPrefix_def registerAll_def newXyoPacker_def registerSerializerDeserializer_def
  serialize_def findSerializer_def makeTyped_def makeUntyped_def encodedSize_def writeUInt8_def
  writeUInt32BE_def newBufferWriteUInt32BE_def newBufferWriteUInt8_def
  XyoTcpNetworkPipe_send_def padBufferWithSize_def readUIntBE_def getSerializerByName_def
  XyoTcpNetworkPipe_close_def serializer_id_def exampleIncomingData_def exampleMajor_def
  exampleMinor_def exampleResponse_def freshSocket_def disconnectAt_def noDisconnect_def Let_def

lemma example_run:
  "run examplePacker (exampleEnv noDisconnect exampleResponse) freshSocket =
     (Fulfilled [9],
      \<lparr> socketWrites = [[0, 0, 0, 11, 4, 0, 0, 0, 1, 2, 7], [0, 0, 0, 6, 2, 8]],
        socketEnded = True \<rparr>)"
  by (simp add: example_defs)

section \<open>Facts shared by the properties of the verifier and of the repository\<close>








lemmas scenario_defs =
  verify_def participantPositions_def validReport_def invalidReport_def blockInvariants_def
  signaturesVerify_def signing_data_def chainIndexOf_def previousHashOf_def
  nextPublicKeyOf_def signedHeuristicsOf_def previousHashLinks_def
  nextPublicKeyHonoured_def everyParticipantIndexed_def exampleProviders_def
  exampleBlock1_def exampleBlock2_def blockWithoutIndex_def blockWithIndex2_def
  committingBlock_def blockSignedBy_def stubVerify_def keysHash_def emptySerialization_def

text \<open>The verifier on the scenarios S1 to S5 of the tests.\<close>

lemma verify_scenario_S1: "is_valid (verify exampleProviders [exampleBlock1])"
  by (simp add: scenario_defs upt_rec)

lemma verify_scenario_S2:
  "verify exampleProviders [blockWithoutIndex] = invalidReport 0 ChainLinkageInvalid"
  by (simp add: scenario_defs upt_rec)

lemma verify_scenario_S3:
  "is_valid (verify exampleProviders [exampleBlock1, exampleBlock2]) \<and>
   \<not> is_valid (verify exampleProviders [exampleBlock2, exampleBlock1])"
  by (simp add: scenario_defs upt_rec)

lemma verify_scenario_S4:
  "verify exampleProviders [exampleBlock1, blockWithIndex2] =
     invalidReport 1 ChainLinkageInvalid"
  by (simp add: scenario_defs upt_rec)

lemma verify_scenario_S5:
  "is_valid (verify exampleProviders [committingBlock, blockSignedBy [3]]) \<and>
   \<not> is_valid (verify exampleProviders [committingBlock, blockSignedBy [5]])"
  by (simp add: scenario_defs upt_rec)

lemma index_updateAll: "index (updateAll hashes st) = index st + length hashes"
  unfolding updateAll_def
  by (induction hashes arbitrary: st) (simp_all add: updateOriginChainState_def split: list.splits)

section \<open>Properties of the packer\<close>

text \<open>
  C1, as amended. Typed serialization followed by deserialization returns the value
  whenever the serializer in effect for the pair serializes the value, the length of the
  payload fits its size prefix (\<open>encodedSize\<close> succeeds), and the serializer's own
  \<open>deserialize\<close>, given the size prefix followed by the payload, returns the value. The
  packer strips the two type bytes only: the size prefix is left to the serializer.
\<close>

theorem roundTrip_of_registered:
  assumes "lastRegistered regs mj mn = Some s"
    and "serializer_serialize s v = Inr data"
    and "encodedSize (length data) s = Inr sizeBuffer"
    and "serializer_deserialize s (sizeBuffer @ data) = Inr v"
  shows "roundTrip (registerAll regs) v mj mn = Inr v"
proof -
  have found: "findSerializer (registerAll regs) mj mn = Some s"
    using assms(1) by (simp add: findSerializer_registerAll)
  have ident: "major s = mj" "minor s = mn"
    using lastRegistered_Some[OF assms(1)] by simp_all
  have ser: "serialize (registerAll regs) v mj mn (Some True) = Inr ([mj, mn] @ sizeBuffer @ data)"
    using found assms(2,3) ident
    by (simp add: serialize_def makeTyped_def serializer_id_def)
  have "deserialize (registerAll regs) ([mj, mn] @ sizeBuffer @ data) = Inr v"
    using found assms(4) by (simp add: deserialize_def)
  with ser show ?thesis by (simp add: roundTrip_def)
qed

text \<open>The round trip of three bytes through a serializer with a size prefix of one byte.\<close>

theorem roundTrip_of_registered_witness:
  "roundTrip examplePacker [1, 2, 3] 1 1 = Inr [1, 2, 3]"
proof -
  have a: "serializer_serialize (byteStringSerializer 1) [1, 2, 3] = Inr [1, 2, 3]"
    by (simp add: byteStringSerializer_def)
  have b: "encodedSize (length [1, 2, 3 :: byte]) (byteStringSerializer 1) = Inr [4]"
    by (simp add: encodedSize_def byteStringSerializer_def writeUInt8_def)
  have c: "serializer_deserialize (byteStringSerializer 1) ([4] @ [1, 2, 3]) = Inr [1, 2, 3]"
    by (simp add: byteStringSerializer_def stripPrefix_def)
  show ?thesis
    unfolding examplePacker_def
    by (rule roundTrip_of_registered[OF example_lookup a b c])
qed

text \<open>
  C1 as stated fails. A payload of 300 bytes does not fit a size prefix of one byte:
  serialization throws. A registered serializer that takes its whole input for the payload
  gets the size prefix back as part of the value.
\<close>

theorem roundTrip_fails_counterexample:
  "roundTrip examplePacker (replicate 300 0) 1 1 = Inl ERR_OUT_OF_RANGE \<and>
   roundTrip wholeInputPacker [5] 1 1 = Inr [2, 5]"
proof
  have "lastRegistered [(''XyoBoundWitnessTransfer'', byteStringSerializer 1)] 1 1 =
          Some (byteStringSerializer 1)"
    by (rule example_lookup)
  then have "findSerializer examplePacker 1 1 = Some (byteStringSerializer 1)"
    by (simp add: examplePacker_def findSerializer_registerAll)
  then show "roundTrip examplePacker (replicate 300 0) 1 1 = Inl ERR_OUT_OF_RANGE"
    by (simp add: roundTrip_def serialize_def makeTyped_def encodedSize_def writeUInt8_def
        byteStringSerializer_def)
next
  have "findSerializer wholeInputPacker 1 1 = Some wholeInputSerializer"
    by (simp add: wholeInputPacker_def findSerializer_registerAll lastRegistered_def
        wholeInputSerializer_def)
  then show "roundTrip wholeInputPacker [5] 1 1 = Inr [2, 5]"
    by (simp add: roundTrip_def serialize_def makeTyped_def encodedSize_def writeUInt8_def
        wholeInputSerializer_def serializer_id_def deserialize_def)
qed

text \<open>
  C4, as amended. Registration never fails. It appends the serializer to the collection
  and makes it the one in effect for its pair: a second serializer registered under the
  pair of an earlier one replaces it in the index by major and minor, the earlier one
  stays in the collection, and the other pairs keep their serializer.
\<close>

theorem register_duplicate_replaces:
  "serializerDeserializersCollection (registerSerializerDeserializer name s p) =
     serializerDeserializersCollection p @ [s] \<and>
   getSerializerByMajorMinor (registerSerializerDeserializer name s p) (major s) (minor s) =
     Inr (Some s) \<and>
   findSerializer (registerAll (regs @ [(name, s)])) mj mn =
     (if major s = mj \<and> minor s = mn then Some s else findSerializer (registerAll regs) mj mn)"
proof (intro conjI)
  show "serializerDeserializersCollection (registerSerializerDeserializer name s p) =
     serializerDeserializersCollection p @ [s]"
    by (simp add: registerSerializerDeserializer_def Let_def)
  show "getSerializerByMajorMinor (registerSerializerDeserializer name s p) (major s) (minor s) =
     Inr (Some s)"
    by (simp add: registerSerializerDeserializer_def getSerializerByMajorMinor_def Let_def)
  show "findSerializer (registerAll (regs @ [(name, s)])) mj mn =
     (if major s = mj \<and> minor s = mn then Some s else findSerializer (registerAll regs) mj mn)"
    by (simp only: findSerializer_registerAll lastRegistered_snoc)
qed

text \<open>Both serializers of the packer with two registrations under the pair (1, 1) are kept.\<close>

theorem register_duplicate_replaces_witness:
  "serializerDeserializersCollection twicePacker =
     [byteStringSerializer 1, byteStringSerializer 2]"
  using register_duplicate_replaces[of "''Second''" "byteStringSerializer 2"
      "registerSerializerDeserializer ''First'' (byteStringSerializer 1) newXyoPacker"]
    register_duplicate_replaces[of "''First''" "byteStringSerializer 1" newXyoPacker]
  by (simp add: twicePacker_def newXyoPacker_def)

text \<open>
  C4 as stated fails: after two registrations under the pair (1, 1) the lookup returns
  the second serializer, whose size prefix has two bytes, not the first.
\<close>

theorem register_duplicate_counterexample:
  "getSerializerByMajorMinor twicePacker 1 1 = Inr (Some (byteStringSerializer 2)) \<and>
   sizeOfBytesToRead (byteStringSerializer 2) \<noteq> sizeOfBytesToRead (byteStringSerializer 1)"
  by (simp add: twicePacker_def registerSerializerDeserializer_def newXyoPacker_def
      getSerializerByMajorMinor_def byteStringSerializer_def Let_def)

text \<open>
  C5, as amended. \<open>deserialize\<close> fails with \<^verbatim>\<open>ERR_CREATOR_MAPPING\<close> on a buffer of fewer
  than two bytes; otherwise it reads the first two bytes as major and minor and fails with
  the same error when no serializer is registered for them; otherwise it returns or
  throws exactly what the registered serializer does on the remaining bytes. The packer
  itself reads neither the size prefix nor the length of what follows.
\<close>

theorem deserialize_dispatch_by_type:
  "deserialize (registerAll regs) b =
     (if length b < 2 then Inl ERR_CREATOR_MAPPING
      else (case lastRegistered regs (b ! 0) (b ! 1) of
              None \<Rightarrow> Inl ERR_CREATOR_MAPPING
            | Some s \<Rightarrow> serializer_deserialize s (drop 2 b)))"
  by (auto simp: deserialize_def findSerializer_registerAll split: option.splits)

text \<open>A typed buffer, a buffer of one byte, and a buffer of an unknown major.\<close>

theorem deserialize_dispatch_by_type_witness:
  "deserialize examplePacker [1, 1, 3, 8, 9] = Inr [8, 9] \<and>
   deserialize examplePacker [1] = Inl ERR_CREATOR_MAPPING \<and>
   deserialize examplePacker [2, 1, 3, 8, 9] = Inl ERR_CREATOR_MAPPING"
  using deserialize_dispatch_by_type[of "[(''XyoBoundWitnessTransfer'', byteStringSerializer 1)]" "[1, 1, 3, 8, 9]"]
    deserialize_dispatch_by_type[of "[(''XyoBoundWitnessTransfer'', byteStringSerializer 1)]" "[1]"]
    deserialize_dispatch_by_type[of "[(''XyoBoundWitnessTransfer'', byteStringSerializer 1)]" "[2, 1, 3, 8, 9]"]
  by (simp add: examplePacker_def lastRegistered_def byteStringSerializer_def stripPrefix_def)

text \<open>
  C5 as stated fails: a malformed buffer of a registered type need not fail. The size
  prefix 200 of a buffer of five bytes is inconsistent, and a buffer cut after its two
  type bytes has no size prefix at all; the packer hands both to the serializer, and
  with a serializer that does not test the prefix both are deserialized.
\<close>

theorem deserialize_unchecked_prefix_counterexample:
  "deserialize examplePacker [1, 1, 200, 8, 9] = Inr [8, 9] \<and>
   deserialize examplePacker [1, 1] = Inr []"
proof -
  have "findSerializer examplePacker 1 1 = Some (byteStringSerializer 1)"
    using example_lookup by (simp add: examplePacker_def findSerializer_registerAll)
  then show ?thesis
    by (simp add: deserialize_def byteStringSerializer_def stripPrefix_def)
qed

text \<open>
  C6, as amended. For a registered serializer of width \<open>w\<close> among 0, 1, 2 and 4 and a
  payload whose length plus \<open>w\<close> is below \<open>256 ^ w\<close> (or any payload when \<open>w\<close> is 0),
  typed serialization is the byte major, the byte minor, the big-endian field of \<open>w\<close>
  bytes holding \<open>w\<close> plus the length of the payload, and the payload; untyped
  serialization is the same without the two type bytes; with \<open>w = 0\<close> the field is empty.
\<close>

theorem serialize_framing_fits:
  assumes "lastRegistered regs mj mn = Some s"
    and "serializer_serialize s v = Inr payload"
    and "w = sizeOfBytesToRead s"
    and "w \<in> {0, 1, 2, 4}"
    and "w = 0 \<or> w + length payload < 256 ^ w"
  shows "serialize (registerAll regs) v mj mn (Some True) =
           Inr ([mj, mn] @ uintBE w (w + length payload) @ payload)
       \<and> serialize (registerAll regs) v mj mn (Some False) =
           Inr (uintBE w (w + length payload) @ payload)
       \<and> length (uintBE w (w + length payload)) = w
       \<and> (0 < w \<longrightarrow> readUIntBE (uintBE w (w + length payload)) = w + length payload)"
proof -
  have found: "findSerializer (registerAll regs) mj mn = Some s"
    using assms(1) by (simp add: findSerializer_registerAll)
  have ident: "major s = mj" "minor s = mn"
    using lastRegistered_Some[OF assms(1)] by simp_all
  have enc: "encodedSize (length payload) s = Inr (uintBE w (w + length payload))"
    using encodedSize_fits[of s "length payload"] assms(3,4,5) by (simp add: add.commute)
  have rd: "0 < w \<longrightarrow> readUIntBE (uintBE w (w + length payload)) = w + length payload"
    using assms(5) by (auto simp: readUIntBE_uintBE)
  show ?thesis
    using found ident enc rd assms(2)
    by (simp add: serialize_def makeTyped_def makeUntyped_def serializer_id_def length_uintBE)
qed

text \<open>Two bytes under a size prefix of one byte: the prefix holds 3.\<close>

theorem serialize_framing_fits_witness:
  "serialize examplePacker [8, 9] 1 1 (Some True) = Inr [1, 1, 3, 8, 9] \<and>
   serialize examplePacker [8, 9] 1 1 (Some False) = Inr [3, 8, 9] \<and>
   readUIntBE [3] = 3"
proof -
  have a: "serializer_serialize (byteStringSerializer 1) [8, 9] = Inr [8, 9]"
    by (simp add: byteStringSerializer_def)
  have b: "(1::nat) = sizeOfBytesToRead (byteStringSerializer 1)"
    by (simp add: byteStringSerializer_def)
  have c: "(1::nat) \<in> {0, 1, 2, 4}" by simp
  have d: "(1::nat) = 0 \<or> 1 + length [8, 9 :: byte] < 256 ^ 1" by simp
  show ?thesis
    using serialize_framing_fits[OF example_lookup a b c d]
    by (simp add: examplePacker_def)
qed

text \<open>
  C6 as stated fails for a payload of 255 bytes under a size prefix of one byte: the
  value 256 does not fit the prefix and the serialization throws.
\<close>

theorem serialize_framing_counterexample:
  "serialize examplePacker (replicate 255 0) 1 1 (Some False) = Inl ERR_OUT_OF_RANGE"
proof -
  have "findSerializer examplePacker 1 1 = Some (byteStringSerializer 1)"
    using example_lookup by (simp add: examplePacker_def findSerializer_registerAll)
  then show ?thesis
    by (simp add: serialize_def makeUntyped_def encodedSize_def writeUInt8_def
        byteStringSerializer_def)
qed

text \<open>
  C10. After any sequence of registrations, \<open>getSerializerByMajorMinor\<close> throws when no
  serializer of that major was registered; otherwise it returns the serializer registered
  (last) for the pair, or \<^verbatim>\<open>undefined\<close> when the minor has none.
\<close>

theorem getSerializerByMajorMinor_cases:
  "getSerializerByMajorMinor (registerAll regs) mj mn =
     (if majorRegistered regs mj then Inr (lastRegistered regs mj mn) else Inl ERR_TYPE_ERROR)"
proof (cases "serializerDeserializerMajorMinorIndex (registerAll regs) mj")
  case None
  then show ?thesis using registerAll_major_index[of regs mj]
    by (simp add: getSerializerByMajorMinor_def)
next
  case (Some byMinor)
  from registerAll_minor_index[OF Some, of mn] Some registerAll_major_index[of regs mj] show ?thesis
    by (auto simp: getSerializerByMajorMinor_def registerAll_collection split: option.splits)
qed

text \<open>A registered pair, a registered major with another minor, and another major.\<close>

theorem getSerializerByMajorMinor_cases_witness:
  "getSerializerByMajorMinor examplePacker 1 1 = Inr (Some (byteStringSerializer 1)) \<and>
   getSerializerByMajorMinor examplePacker 1 2 = Inr None \<and>
   getSerializerByMajorMinor examplePacker 2 1 = Inl ERR_TYPE_ERROR"
  using getSerializerByMajorMinor_cases[of "[(''XyoBoundWitnessTransfer'', byteStringSerializer 1)]" 1 1]
    getSerializerByMajorMinor_cases[of "[(''XyoBoundWitnessTransfer'', byteStringSerializer 1)]" 1 2]
    getSerializerByMajorMinor_cases[of "[(''XyoBoundWitnessTransfer'', byteStringSerializer 1)]" 2 1]
  by (simp add: examplePacker_def lastRegistered_def majorRegistered_def byteStringSerializer_def)

section \<open>Properties of the pipe and of the interaction\<close>

text \<open>
  C7, as amended. For every message buffer \<open>b\<close> whose length plus 4 is below \<open>2 ^ 32\<close>,
  \<open>send\<close> writes to the socket one buffer: the big-endian field of four bytes holding the
  length of \<open>b\<close> plus 4, followed by \<open>b\<close>.
\<close>

theorem send_writes_length_framed:
  assumes "length b + 4 < 2 ^ 32"
  shows "padBufferWithSize b = Inr (uintBE 4 (length b + 4) @ b)
       \<and> length (uintBE 4 (length b + 4)) = 4
       \<and> readUIntBE (uintBE 4 (length b + 4)) = length b + 4
       \<and> (case XyoTcpNetworkPipe_send b awaitResponse chunks sock of
            Inl e \<Rightarrow> False
          | Inr (response, sock') \<Rightarrow>
              socketWrites sock' = socketWrites sock @ [uintBE 4 (length b + 4) @ b])"
proof -
  have pad: "padBufferWithSize b = Inr (uintBE 4 (length b + 4) @ b)"
    using assms by (rule padBufferWithSize_fits)
  have rd: "readUIntBE (uintBE 4 (length b + 4)) = length b + 4"
    using assms by (simp add: readUIntBE_uintBE)
  obtain r where r: "XyoTcpNetworkPipe_send b awaitResponse chunks sock = Inr r"
    using pad by (cases "awaitResponse = Some False") (simp_all add: XyoTcpNetworkPipe_send_def Let_def)
  obtain response sock' where
    sent: "XyoTcpNetworkPipe_send b awaitResponse chunks sock = Inr (response, sock')"
    using r by (cases r) simp
  from send_Inr[OF sent] sent pad rd show ?thesis
    by (simp add: length_uintBE)
qed

text \<open>Two bytes sent on a fresh socket: the field holds 6.\<close>

theorem send_writes_length_framed_witness:
  "XyoTcpNetworkPipe_send [7, 8] (Some False) [] freshSocket =
     Inr (Fulfilled None, \<lparr> socketWrites = [[0, 0, 0, 6, 7, 8]], socketEnded = False \<rparr>)
   \<and> readUIntBE [0, 0, 0, 6] = 6"
proof -
  have h: "length [7, 8 :: byte] + 4 < 2 ^ 32" by simp
  show ?thesis
    using send_writes_length_framed[OF h, where awaitResponse = "Some False" and chunks = "[]"
        and sock = freshSocket]
    by (simp add: XyoTcpNetworkPipe_send_def freshSocket_def uintBE_4 Let_def
        split: sum.splits)
qed

text \<open>
  C7 as stated fails for a buffer of \<open>2 ^ 32 - 4\<close> bytes: its length plus 4 does not fit
  the field of four bytes, \<^verbatim>\<open>writeUInt32BE\<close> throws and nothing is written.
\<close>

theorem send_oversize_counterexample:
  "XyoTcpNetworkPipe_send (replicate 4294967292 0) (Some False) [] freshSocket =
     Inl ERR_OUT_OF_RANGE"
  by (simp add: XyoTcpNetworkPipe_send_def padBufferWithSize_def writeUInt32BE_def)

text \<open>
  C8. With the catalogue length constant 4 and its size-of-size constant 1, the messages
  \<open>run\<close> hands to the pipe are none, or the first one only, or the first and the second.
  The first is the byte 4, the catalogue item in four big-endian bytes, and the untyped
  serialization of the first transfer; the second is the untyped serialization of the
  second transfer and nothing else. When \<open>run\<close> resolves, both were sent.
\<close>

theorem catalogue_header_first_only:
  assumes "XYO_TCP_CATALOGUE_LENGTH_IN_BYTES env = 4"
    and "XYO_TCP_CATALOGUE_SIZE_OF_SIZE_BYTES env = 1"
    and "run xyoPacker env sock = (outcome, sock')"
  shows "outboundMessages sock sock' = [] \<and> (\<forall>bw. outcome \<noteq> Fulfilled bw)
     \<or> (\<exists>t1 bw1 bytes.
          incomingData env (newXyoZigZagBoundWitness env) None False = Inr (t1, bw1) \<and>
          serialize xyoPacker t1 (objectMajor env t1) (objectMinor env t1) (Some False) =
            Inr bytes \<and>
          BOUND_WITNESS env < 2 ^ 32 \<and>
          (outboundMessages sock sock' = [[4] @ uintBE 4 (BOUND_WITNESS env) @ bytes] \<and>
           (\<forall>bw. outcome \<noteq> Fulfilled bw)
           \<or> (\<exists>transferObj transfer bw' transferBytes.
                incomingData env bw1 (Some transferObj) False = Inr (transfer, bw') \<and>
                serialize xyoPacker transfer (objectMajor env transfer)
                  (objectMinor env transfer) (Some False) = Inr transferBytes \<and>
                outcome = Fulfilled bw' \<and>
                outboundMessages sock sock' =
                  [[4] @ uintBE 4 (BOUND_WITNESS env) @ bytes, transferBytes])))"
proof -
  from run_cases[OF assms(3)]
  consider
    (nothing) "sock' = sock" "\<forall>bw. outcome \<noteq> Fulfilled bw"
  | (sent) t1 bw1 bytes catalogueBuffer sizeBuffer sock1 where
      "incomingData env (newXyoZigZagBoundWitness env) None False = Inr (t1, bw1)"
      "serialize xyoPacker t1 (objectMajor env t1) (objectMinor env t1) (Some False) = Inr bytes"
      "newBufferWriteUInt32BE (XYO_TCP_CATALOGUE_LENGTH_IN_BYTES env) (BOUND_WITNESS env) =
         Inr catalogueBuffer"
      "newBufferWriteUInt8 (XYO_TCP_CATALOGUE_SIZE_OF_SIZE_BYTES env)
         (XYO_TCP_CATALOGUE_LENGTH_IN_BYTES env) = Inr sizeBuffer"
      "socketWrites sock1 =
         socketWrites sock @
           [uintBE 4 (length (sizeBuffer @ catalogueBuffer @ bytes) + 4) @
            (sizeBuffer @ catalogueBuffer @ bytes)]"
      "(outcome = NeverSettles \<and> sock' = sock1) \<or>
       (\<exists>response. run_afterResponse xyoPacker env bw1 response sock1 = (outcome, sock'))"
    by blast
  then show ?thesis
  proof cases
    case nothing
    then show ?thesis by (simp add: outboundMessages_same)
  next
    case sent
    from sent(3) assms(1) have cat: "catalogueBuffer = uintBE 4 (BOUND_WITNESS env)"
      and bound: "BOUND_WITNESS env < 2 ^ 32"
      using newBufferWriteUInt32BE_4 by auto
    from sent(4) assms(1,2) have sz: "sizeBuffer = [4]"
      by (simp add: newBufferWriteUInt8_def writeUInt8_def)
    let ?first = "[4] @ uintBE 4 (BOUND_WITNESS env) @ bytes"
    have writes1: "socketWrites sock1 = socketWrites sock @ [uintBE 4 (length ?first + 4) @ ?first]"
      using sent(5) cat sz by simp
    from sent(6) consider
      (pending) "outcome = NeverSettles" "sock' = sock1"
    | (after) response where "run_afterResponse xyoPacker env bw1 response sock1 = (outcome, sock')"
      by blast
    then have "outboundMessages sock sock' = [?first] \<and> (\<forall>bw. outcome \<noteq> Fulfilled bw)
       \<or> (\<exists>transferObj transfer bw' transferBytes.
            incomingData env bw1 (Some transferObj) False = Inr (transfer, bw') \<and>
            serialize xyoPacker transfer (objectMajor env transfer)
              (objectMinor env transfer) (Some False) = Inr transferBytes \<and>
            outcome = Fulfilled bw' \<and>
            outboundMessages sock sock' = [?first, transferBytes])"
    proof cases
      case pending
      then show ?thesis using outboundMessages_one[OF writes1] by simp
    next
      case after
      from run_afterResponse_cases[OF after]
      consider
        (stopped) "sock' = sock1" "\<forall>bw. outcome \<noteq> Fulfilled bw"
      | (finished) transferObj transfer bw' transferBytes where
          "incomingData env bw1 (Some transferObj) False = Inr (transfer, bw')"
          "serialize xyoPacker transfer (objectMajor env transfer)
             (objectMinor env transfer) (Some False) = Inr transferBytes"
          "outcome = Fulfilled bw'"
          "socketWrites sock' =
             socketWrites sock1 @ [uintBE 4 (length transferBytes + 4) @ transferBytes]"
        by blast
      then show ?thesis
      proof cases
        case stopped
        then show ?thesis using outboundMessages_one[OF writes1] by simp
      next
        case finished
        from finished(4) writes1 have
          "socketWrites sock' =
             (socketWrites sock @ [uintBE 4 (length ?first + 4) @ ?first]) @
             [uintBE 4 (length transferBytes + 4) @ transferBytes]"
          by simp
        then have "outboundMessages sock sock' = [?first, transferBytes]"
          by (rule outboundMessages_two)
        with finished(1,2,3) show ?thesis by blast
      qed
    qed
    with sent(1,2) bound show ?thesis by blast
  qed
qed

text \<open>A complete run: the header 4, 0, 0, 0, 1 is on the first message only.\<close>

theorem catalogue_header_first_only_witness:
  "outboundMessages freshSocket
     (snd (run examplePacker (exampleEnv noDisconnect exampleResponse) freshSocket)) =
     [[4] @ [0, 0, 0, 1] @ [2, 7], [2, 8]]"
proof -
  have l: "XYO_TCP_CATALOGUE_LENGTH_IN_BYTES (exampleEnv noDisconnect exampleResponse) = 4"
    by (simp add: exampleEnv_def)
  have s: "XYO_TCP_CATALOGUE_SIZE_OF_SIZE_BYTES (exampleEnv noDisconnect exampleResponse) = 1"
    by (simp add: exampleEnv_def)
  from catalogue_header_first_only[OF l s example_run]
  show ?thesis
    unfolding example_run
    by (simp add: outboundMessages_def freshSocket_def)
qed

text \<open>
  C9, as amended. \<open>run\<close> tests the disconnect flag after \<^verbatim>\<open>startBoundWitness\<close>, before
  the first send and before the final send, and rejects with \<^verbatim>\<open>ERR_CRITICAL\<close> at the
  first test that finds it set. So: if the listener fires at point 1, \<open>run\<close> rejects, nothing
  sent; if it fires at point 2 and the first transfer, its serialization and the catalogue
  header are produced, \<open>run\<close> rejects, nothing sent; if it fires at point 3 or 4, and the
  response arrives and is integrated by the bound witness, \<open>run\<close> rejects after the first
  message only. \<open>run\<close> resolves with a block only if the listener fired at none of the
  points 1 to 4, and rejects for no other reason than a disconnect. What the listener
  does at point 5, during the final send, has no effect on the outcome.
\<close>

theorem disconnect_rejects_at_tests:
  "(disconnectDuring env 1 \<longrightarrow>
      run xyoPacker env sock = (RejectedWith ERR_CRITICAL, sock))
   \<and> (\<not> disconnectDuring env 1 \<and> disconnectDuring env 2 \<and>
       incomingData env (newXyoZigZagBoundWitness env) None False = Inr (t1, bw1) \<and>
       serialize xyoPacker bw1 (objectMajor env bw1) (objectMinor env bw1) (Some True) =
         Inr logged1 \<and>
       serialize xyoPacker t1 (objectMajor env t1) (objectMinor env t1) (Some False) =
         Inr bytes \<and>
       newBufferWriteUInt32BE (XYO_TCP_CATALOGUE_LENGTH_IN_BYTES env) (BOUND_WITNESS env) =
         Inr catalogueBuffer \<and>
       newBufferWriteUInt8 (XYO_TCP_CATALOGUE_SIZE_OF_SIZE_BYTES env)
         (XYO_TCP_CATALOGUE_LENGTH_IN_BYTES env) = Inr sizeBuffer \<longrightarrow>
      run xyoPacker env sock = (RejectedWith ERR_CRITICAL, sock))
   \<and> (\<not> disconnectDuring env 1 \<and> \<not> disconnectDuring env 2 \<and>
       (disconnectDuring env 3 \<or> disconnectDuring env 4) \<and>
       incomingData env (newXyoZigZagBoundWitness env) None False = Inr (t1, bw1) \<and>
       serialize xyoPacker bw1 (objectMajor env bw1) (objectMinor env bw1) (Some True) =
         Inr logged1 \<and>
       serialize xyoPacker t1 (objectMajor env t1) (objectMinor env t1) (Some False) =
         Inr bytes \<and>
       newBufferWriteUInt32BE (XYO_TCP_CATALOGUE_LENGTH_IN_BYTES env) (BOUND_WITNESS env) =
         Inr catalogueBuffer \<and>
       newBufferWriteUInt8 (XYO_TCP_CATALOGUE_SIZE_OF_SIZE_BYTES env)
         (XYO_TCP_CATALOGUE_LENGTH_IN_BYTES env) = Inr sizeBuffer \<and>
       XyoTcpNetworkPipe_send (sizeBuffer @ catalogueBuffer @ bytes) None (incomingChunks env)
         sock = Inr (Fulfilled (Some response), sock1) \<and>
       getSerializerByName xyoPacker (XyoBoundWitnessTransfer_name env) =
         Inr (Some transferSerializer) \<and>
       serializer_deserialize transferSerializer response = Inr transferObj \<and>
       incomingData env bw1 (Some transferObj) False = Inr (transfer, bw2) \<and>
       serialize xyoPacker bw2 (objectMajor env bw2) (objectMinor env bw2) (Some True) =
         Inr logged2 \<longrightarrow>
      run xyoPacker env sock = (RejectedWith ERR_CRITICAL, sock1))
   \<and> (run xyoPacker env sock = (Fulfilled bw, sock') \<longrightarrow>
        \<not> disconnectDuring env 1 \<and> \<not> disconnectDuring env 2 \<and>
        \<not> disconnectDuring env 3 \<and> \<not> disconnectDuring env 4)
   \<and> (run xyoPacker env sock = (RejectedWith e, sock') \<longrightarrow>
        e = ERR_CRITICAL \<and>
        (disconnectDuring env 1 \<or> disconnectDuring env 2 \<or>
         disconnectDuring env 3 \<or> disconnectDuring env 4))
   \<and> (f 1 = disconnectDuring env 1 \<and> f 2 = disconnectDuring env 2 \<and>
       f 3 = disconnectDuring env 3 \<and> f 4 = disconnectDuring env 4 \<longrightarrow>
        run xyoPacker (env\<lparr>disconnectDuring := f\<rparr>) sock = run xyoPacker env sock)"
proof -
  have first: "disconnectDuring env 1 \<longrightarrow>
      run xyoPacker env sock = (RejectedWith ERR_CRITICAL, sock)"
    by (simp add: run_def)
  have second: "\<not> disconnectDuring env 1 \<and> disconnectDuring env 2 \<and>
       incomingData env (newXyoZigZagBoundWitness env) None False = Inr (t1, bw1) \<and>
       serialize xyoPacker bw1 (objectMajor env bw1) (objectMinor env bw1) (Some True) =
         Inr logged1 \<and>
       serialize xyoPacker t1 (objectMajor env t1) (objectMinor env t1) (Some False) =
         Inr bytes \<and>
       newBufferWriteUInt32BE (XYO_TCP_CATALOGUE_LENGTH_IN_BYTES env) (BOUND_WITNESS env) =
         Inr catalogueBuffer \<and>
       newBufferWriteUInt8 (XYO_TCP_CATALOGUE_SIZE_OF_SIZE_BYTES env)
         (XYO_TCP_CATALOGUE_LENGTH_IN_BYTES env) = Inr sizeBuffer \<longrightarrow>
      run xyoPacker env sock = (RejectedWith ERR_CRITICAL, sock)"
    by (simp add: run_def)
  have third: "\<not> disconnectDuring env 1 \<and> \<not> disconnectDuring env 2 \<and>
       (disconnectDuring env 3 \<or> disconnectDuring env 4) \<and>
       incomingData env (newXyoZigZagBoundWitness env) None False = Inr (t1, bw1) \<and>
       serialize xyoPacker bw1 (objectMajor env bw1) (objectMinor env bw1) (Some True) =
         Inr logged1 \<and>
       serialize xyoPacker t1 (objectMajor env t1) (objectMinor env t1) (Some False) =
         Inr bytes \<and>
       newBufferWriteUInt32BE (XYO_TCP_CATALOGUE_LENGTH_IN_BYTES env) (BOUND_WITNESS env) =
         Inr catalogueBuffer \<and>
       newBufferWriteUInt8 (XYO_TCP_CATALOGUE_SIZE_OF_SIZE_BYTES env)
         (XYO_TCP_CATALOGUE_LENGTH_IN_BYTES env) = Inr sizeBuffer \<and>
       XyoTcpNetworkPipe_send (sizeBuffer @ catalogueBuffer @ bytes) None (incomingChunks env)
         sock = Inr (Fulfilled (Some response), sock1) \<and>
       getSerializerByName xyoPacker (XyoBoundWitnessTransfer_name env) =
         Inr (Some transferSerializer) \<and>
       serializer_deserialize transferSerializer response = Inr transferObj \<and>
       incomingData env bw1 (Some transferObj) False = Inr (transfer, bw2) \<and>
       serialize xyoPacker bw2 (objectMajor env bw2) (objectMinor env bw2) (Some True) =
         Inr logged2 \<longrightarrow>
      run xyoPacker env sock = (RejectedWith ERR_CRITICAL, sock1)"
    by (auto simp: run_def run_afterResponse_def)
  have resolved: "run xyoPacker env sock = (Fulfilled bw, sock') \<longrightarrow>
        \<not> disconnectDuring env 1 \<and> \<not> disconnectDuring env 2 \<and>
        \<not> disconnectDuring env 3 \<and> \<not> disconnectDuring env 4"
  proof
    assume r: "run xyoPacker env sock = (Fulfilled bw, sock')"
    from run_cases[OF r] show "\<not> disconnectDuring env 1 \<and> \<not> disconnectDuring env 2 \<and>
        \<not> disconnectDuring env 3 \<and> \<not> disconnectDuring env 4"
      by (elim disjE exE conjE) (auto dest!: run_afterResponse_cases)
  qed
  have rejected: "run xyoPacker env sock = (RejectedWith e, sock') \<longrightarrow>
        e = ERR_CRITICAL \<and>
        (disconnectDuring env 1 \<or> disconnectDuring env 2 \<or>
         disconnectDuring env 3 \<or> disconnectDuring env 4)"
  proof
    assume r: "run xyoPacker env sock = (RejectedWith e, sock')"
    from run_cases[OF r] show "e = ERR_CRITICAL \<and>
        (disconnectDuring env 1 \<or> disconnectDuring env 2 \<or>
         disconnectDuring env 3 \<or> disconnectDuring env 4)"
      by (elim disjE exE conjE) (auto dest!: run_afterResponse_cases)
  qed
  have final: "f 1 = disconnectDuring env 1 \<and> f 2 = disconnectDuring env 2 \<and>
       f 3 = disconnectDuring env 3 \<and> f 4 = disconnectDuring env 4 \<longrightarrow>
        run xyoPacker (env\<lparr>disconnectDuring := f\<rparr>) sock = run xyoPacker env sock"
    by (simp add: run_ignores_final_point)
  from first second third resolved rejected final show ?thesis
    by (intro conjI)
qed

text \<open>A disconnect at the first point, and a disconnect during the awaited send.\<close>

theorem disconnect_rejects_at_tests_witness:
  "run examplePacker (exampleEnv (disconnectAt 1) exampleResponse) freshSocket =
     (RejectedWith ERR_CRITICAL, freshSocket)
   \<and> run examplePacker (exampleEnv (disconnectAt 3) exampleResponse) freshSocket =
     (RejectedWith ERR_CRITICAL,
      \<lparr> socketWrites = [[0, 0, 0, 11, 4, 0, 0, 0, 1, 2, 7]], socketEnded = False \<rparr>)"
proof -
  have h1: "disconnectDuring (exampleEnv (disconnectAt 1) exampleResponse) 1"
    by (simp add: exampleEnv_def disconnectAt_def)
  have h3: "\<not> disconnectDuring (exampleEnv (disconnectAt 3) exampleResponse) 1 \<and>
       \<not> disconnectDuring (exampleEnv (disconnectAt 3) exampleResponse) 2 \<and>
       (disconnectDuring (exampleEnv (disconnectAt 3) exampleResponse) 3 \<or>
        disconnectDuring (exampleEnv (disconnectAt 3) exampleResponse) 4) \<and>
       incomingData (exampleEnv (disconnectAt 3) exampleResponse)
         (newXyoZigZagBoundWitness (exampleEnv (disconnectAt 3) exampleResponse)) None False =
         Inr ([7], []) \<and>
       serialize examplePacker []
         (objectMajor (exampleEnv (disconnectAt 3) exampleResponse) [])
         (objectMinor (exampleEnv (disconnectAt 3) exampleResponse) []) (Some True) =
         Inr [1, 1, 1] \<and>
       serialize examplePacker [7]
         (objectMajor (exampleEnv (disconnectAt 3) exampleResponse) [7])
         (objectMinor (exampleEnv (disconnectAt 3) exampleResponse) [7]) (Some False) =
         Inr [2, 7] \<and>
       newBufferWriteUInt32BE
         (XYO_TCP_CATALOGUE_LENGTH_IN_BYTES (exampleEnv (disconnectAt 3) exampleResponse))
         (BOUND_WITNESS (exampleEnv (disconnectAt 3) exampleResponse)) = Inr [0, 0, 0, 1] \<and>
       newBufferWriteUInt8
         (XYO_TCP_CATALOGUE_SIZE_OF_SIZE_BYTES (exampleEnv (disconnectAt 3) exampleResponse))
         (XYO_TCP_CATALOGUE_LENGTH_IN_BYTES (exampleEnv (disconnectAt 3) exampleResponse)) =
         Inr [4] \<and>
       XyoTcpNetworkPipe_send ([4] @ [0, 0, 0, 1] @ [2, 7]) None
         (incomingChunks (exampleEnv (disconnectAt 3) exampleResponse)) freshSocket =
         Inr (Fulfilled (Some [2, 9]),
              \<lparr> socketWrites = [[0, 0, 0, 11, 4, 0, 0, 0, 1, 2, 7]], socketEnded = False \<rparr>) \<and>
       getSerializerByName examplePacker
         (XyoBoundWitnessTransfer_name (exampleEnv (disconnectAt 3) exampleResponse)) =
         Inr (Some (byteStringSerializer 1)) \<and>
       serializer_deserialize (byteStringSerializer 1) [2, 9] = Inr [9] \<and>
       incomingData (exampleEnv (disconnectAt 3) exampleResponse) [] (Some [9]) False =
         Inr ([8], [9]) \<and>
       serialize examplePacker [9]
         (objectMajor (exampleEnv (disconnectAt 3) exampleResponse) [9])
         (objectMinor (exampleEnv (disconnectAt 3) exampleResponse) [9]) (Some True) =
         Inr [1, 1, 2, 9]"
    by (simp add: example_defs)
  note at1 = disconnect_rejects_at_tests[where env = "exampleEnv (disconnectAt 1) exampleResponse"
      and xyoPacker = examplePacker and sock = freshSocket]
  note at3 = disconnect_rejects_at_tests[where env = "exampleEnv (disconnectAt 3) exampleResponse"
      and xyoPacker = examplePacker and sock = freshSocket and ?t1.0 = "[7]" and ?bw1.0 = "[]"
      and ?logged1.0 = "[1, 1, 1]" and bytes = "[2, 7]" and catalogueBuffer = "[0, 0, 0, 1]"
      and sizeBuffer = "[4]" and response = "[2, 9]"
      and ?sock1.0 = "\<lparr> socketWrites = [[0, 0, 0, 11, 4, 0, 0, 0, 1, 2, 7]], socketEnded = False \<rparr>"
      and transferSerializer = "byteStringSerializer 1" and transferObj = "[9]"
      and transfer = "[8]" and ?bw2.0 = "[9]" and ?logged2.0 = "[1, 1, 2, 9]"]
  from at1 h1 have a: "run examplePacker (exampleEnv (disconnectAt 1) exampleResponse) freshSocket =
     (RejectedWith ERR_CRITICAL, freshSocket)"
    by blast
  from at3 h3 have b: "run examplePacker (exampleEnv (disconnectAt 3) exampleResponse) freshSocket =
     (RejectedWith ERR_CRITICAL,
      \<lparr> socketWrites = [[0, 0, 0, 11, 4, 0, 0, 0, 1, 2, 7]], socketEnded = False \<rparr>)"
    by blast
  from a b show ?thesis by blast
qed

text \<open>
  C9 as stated fails. The listener fires during the final send, after the last test of
  the flag: \<open>run\<close> resolves with the block. The listener fires during the awaited send and
  no response arrives: the promise of \<open>run\<close> never settles.
\<close>

theorem disconnect_unchecked_counterexample:
  "fst (run examplePacker (exampleEnv (disconnectAt 5) exampleResponse) freshSocket) =
     Fulfilled [9]
   \<and> fst (run examplePacker (exampleEnv (disconnectAt 3) []) freshSocket) = NeverSettles"
  by (simp add: example_defs)

section \<open>Properties of the verifier and of the repository\<close>



text \<open>
  C3. \<open>updateOriginChainState\<close> sets the previous hash to the hash given, adds exactly 1
  to the index, moves the front of the waiting signers, if there is one, to the end of the
  current signers, and clears the next public key; one call for each of \<open>N\<close> hashes on the
  genesis state gives the index \<open>N\<close>.
\<close>

theorem updateOriginChainState_advances:
  "previous_hash (updateOriginChainState h st) = Some h
   \<and> index (updateOriginChainState h st) = index st + 1
   \<and> current_signers (updateOriginChainState h st) =
       current_signers st @ take 1 (waiting_signers st)
   \<and> waiting_signers (updateOriginChainState h st) = drop 1 (waiting_signers st)
   \<and> next_public_key (updateOriginChainState h st) = None
   \<and> index (updateAll hashes genesisState) = length hashes"
  by (simp add: index_updateAll genesisState_def)
    (simp add: updateOriginChainState_def split: list.splits)

end
